theory Spec2Isabelle
  imports Complex_Main "HOL-Library.AList"
begin

section \<open>JavaScript values\<close>

text \<open>
  The routes of \<^verbatim>\<open>src/routes/companies.js\<close> handle request bodies (parsed JSON), query
  objects (what the query-string parser yields: strings, arrays and nested objects) and
  the Numbers that the list handler stores into the query object. All of them are
  JavaScript values.

  A Number is a double: NaN, an infinity, or a finite value, kept here as the rational it
  denotes (negative zero is identified with zero: no operation of the routes tells them
  apart). A string is a list of code units; \<^typ>\<open>char\<close> covers the code units below 256.
  An object is the list of its properties in insertion order.
\<close>

datatype jsnum = NaN | PosInfinity | NegInfinity | Finite rat

datatype jsval =
    Undefined
  | Null
  | Bool bool
  | Number jsnum
  | String string
  | Array "jsval list"
  | Object "(string \<times> jsval) list"

text \<open>Property read \<^verbatim>\<open>o.k\<close> (\<^verbatim>\<open>undefined\<close> when absent) and assignment \<^verbatim>\<open>o.k = v\<close>.\<close>

definition get_prop :: "(string \<times> jsval) list \<Rightarrow> string \<Rightarrow> jsval" where
  "get_prop obj k = (case map_of obj k of None \<Rightarrow> Undefined | Some v \<Rightarrow> v)"

definition set_prop :: "(string \<times> jsval) list \<Rightarrow> string \<Rightarrow> jsval \<Rightarrow> (string \<times> jsval) list" where
  "set_prop obj k v = AList.update k v obj"

text \<open>ToBoolean, the test of \<^verbatim>\<open>if (v)\<close>.\<close>

fun truthy :: "jsval \<Rightarrow> bool" where
  "truthy Undefined = False"
| "truthy Null = False"
| "truthy (Bool b) = b"
| "truthy (Number n) = (case n of NaN \<Rightarrow> False | Finite r \<Rightarrow> r \<noteq> 0 | _ \<Rightarrow> True)"
| "truthy (String s) = (s \<noteq> [])"
| "truthy (Array _) = True"
| "truthy (Object _) = True"

fun isNaN :: "jsnum \<Rightarrow> bool" where
  "isNaN NaN = True"
| "isNaN _ = False"

text \<open>
  ToString. An array is joined with commas, \<^verbatim>\<open>null\<close> and \<^verbatim>\<open>undefined\<close> elements giving the
  empty string; a plain object gives \<^verbatim>\<open>[object Object]\<close>. The decimal rendering of a Number
  (Number::toString) is not modelled: it is the parameter \<open>nts\<close>. A parsed query string
  holds no Number, so the routes reach it on no request that arrives over HTTP.
\<close>

fun ToString :: "(jsnum \<Rightarrow> string) \<Rightarrow> jsval \<Rightarrow> string"
  and join_elements :: "(jsnum \<Rightarrow> string) \<Rightarrow> jsval list \<Rightarrow> string" where
  "ToString nts Undefined = ''undefined''"
| "ToString nts Null = ''null''"
| "ToString nts (Bool b) = (if b then ''true'' else ''false'')"
| "ToString nts (Number n) = nts n"
| "ToString nts (String s) = s"
| "ToString nts (Array xs) = join_elements nts xs"
| "ToString nts (Object _) = ''[object Object]''"
| "join_elements nts [] = []"
| "join_elements nts (x # xs) =
     (if x = Undefined \<or> x = Null then [] else ToString nts x)
       @ (if xs = [] then [] else CHR '','' # join_elements nts xs)"

section \<open>parseInt\<close>

text \<open>
  \<^verbatim>\<open>parseInt(v)\<close> with no radix (ECMAScript, parseInt): the string of \<open>v\<close> loses its leading
  white space, then an optional sign; a following \<^verbatim>\<open>0x\<close> or \<^verbatim>\<open>0X\<close> is dropped
  and selects radix 16, otherwise the radix is 10; the longest prefix of digits of that
  radix is the numeral, and what follows it is ignored. No digit gives NaN. The integer
  becomes a Number by rounding to the nearest double, ties to even.
\<close>

definition isWhiteSpace :: "char \<Rightarrow> bool" where
  "isWhiteSpace c = (of_char c \<in> {9, 10, 11, 12, 13, 32, 160 :: nat})"

definition digitValue :: "char \<Rightarrow> nat option" where
  "digitValue c =
     (let n = (of_char c :: nat) in
      if 48 \<le> n \<and> n \<le> 57 then Some (n - 48)
      else if 97 \<le> n \<and> n \<le> 122 then Some (n - 87)
      else if 65 \<le> n \<and> n \<le> 90 then Some (n - 55)
      else None)"

definition isRadixDigit :: "nat \<Rightarrow> char \<Rightarrow> bool" where
  "isRadixDigit R c = (case digitValue c of None \<Rightarrow> False | Some d \<Rightarrow> d < R)"

definition mathInt :: "nat \<Rightarrow> string \<Rightarrow> int" where
  "mathInt R Z = foldl (\<lambda>acc c. acc * int R + int (case digitValue c of None \<Rightarrow> 0 | Some d \<Rightarrow> d)) 0 Z"

fun bit_length :: "nat \<Rightarrow> nat" where
  "bit_length n = (if n = 0 then 0 else Suc (bit_length (n div 2)))"

declare bit_length.simps [simp del]

text \<open>The double nearest to a natural number, as a natural number; none from \<open>2 ^ 1024\<close> on.\<close>

definition round_to_double :: "nat \<Rightarrow> nat option" where
  "round_to_double n =
     (if n < 2 ^ 53 then Some n
      else
        let e = bit_length n - 53;
            q = n div 2 ^ e;
            r = n mod 2 ^ e;
            half = 2 ^ (e - 1);
            q' = (if half < r \<or> (r = half \<and> odd q) then q + 1 else q);
            m = q' * 2 ^ e
        in if m < 2 ^ 1024 then Some m else None)"

definition Number_of_int :: "int \<Rightarrow> jsnum" where
  "Number_of_int i =
     (case round_to_double (nat \<bar>i\<bar>) of
        None \<Rightarrow> (if i < 0 then NegInfinity else PosInfinity)
      | Some m \<Rightarrow> Finite (of_int (if i < 0 then - int m else int m)))"

definition parseInt_string :: "string \<Rightarrow> jsnum" where
  "parseInt_string inputString =
     (let S = dropWhile isWhiteSpace inputString;
          sign = (if S \<noteq> [] \<and> hd S = CHR ''-'' then - 1 else 1 :: int);
          S = (if S \<noteq> [] \<and> (hd S = CHR ''+'' \<or> hd S = CHR ''-'') then tl S else S);
          hex = (take 2 S = ''0x'' \<or> take 2 S = ''0X'');
          R = (if hex then 16 else 10);
          S = (if hex then drop 2 S else S);
          Z = takeWhile (isRadixDigit R) S
      in if Z = [] then NaN else Number_of_int (sign * mathInt R Z))"

definition parseInt :: "(jsnum \<Rightarrow> string) \<Rightarrow> jsval \<Rightarrow> jsnum" where
  "parseInt nts v = parseInt_string (ToString nts v)"

section \<open>Errors, requests and responses\<close>

text \<open>
  \<^verbatim>\<open>BadRequestError\<close> is raised by the routes with one message or with the list of the
  validator's messages. The other kinds are raised by the collaborators (middleware and
  model) and only pass through the routes.
\<close>

datatype payload = Message string | Messages "string list"

datatype error =
    BadRequestError payload
  | UnauthorizedError
  | NotFoundError string
  | ConflictError string
  | OtherError string

text \<open>
  A request, as far as the routes and their middleware read it: the credentials it
  carries, \<^verbatim>\<open>req.params.handle\<close> (bound by the route pattern, the empty string on the routes
  without it), \<^verbatim>\<open>req.query\<close> and \<^verbatim>\<open>req.body\<close>. \<^verbatim>\<open>req.query\<close> is one object throughout a
  handler: the assignments of the list handler are seen by its later reads.
\<close>

record request =
  credentials :: "string option"
  handle :: string
  query :: "(string \<times> jsval) list"
  body :: jsval

record response =
  status :: nat
  json :: jsval

section \<open>Collaborators\<close>

text \<open>
  The result of \<^verbatim>\<open>jsonschema.validate\<close>: the routes read \<^verbatim>\<open>valid\<close>, and \<^verbatim>\<open>stack\<close> of each
  element of \<^verbatim>\<open>errors\<close>.
\<close>

datatype validation_error = ValidationError (stack: string)

record validator_result =
  valid :: bool
  errors :: "validation_error list"

text \<open>
  The model \<^verbatim>\<open>Company\<close> (\<^verbatim>\<open>models/company\<close>) works on a backing store \<open>'db\<close>: each method
  takes the store and gives back its result, or the error it throws, and the new store.
\<close>

record 'db Company =
  create :: "jsval \<Rightarrow> 'db \<Rightarrow> (error + jsval) \<times> 'db"
  findAll :: "jsval \<Rightarrow> 'db \<Rightarrow> (error + jsval) \<times> 'db"
  get :: "string \<Rightarrow> 'db \<Rightarrow> (error + jsval) \<times> 'db"
  update :: "string \<Rightarrow> jsval \<Rightarrow> 'db \<Rightarrow> (error + jsval) \<times> 'db"
  remove :: "string \<Rightarrow> 'db \<Rightarrow> (error + unit) \<times> 'db"

text \<open>
  What the file requires and does not define: the validator with the three schemas
  (of a type \<open>'s\<close>), the middleware \<^verbatim>\<open>ensureLoggedIn\<close> (\<open>None\<close> when it calls \<^verbatim>\<open>next()\<close>,
  \<open>Some e\<close> when it fails with \<open>e\<close>), the model, and Number::toString of the runtime.
\<close>

record ('db, 's) env =
  Number_toString :: "jsnum \<Rightarrow> string"
  validate :: "jsval \<Rightarrow> 's \<Rightarrow> validator_result"
  companyNewSchema :: 's
  companyUpdateSchema :: 's
  companySearchFiltersSchema :: 's
  ensureLoggedIn :: "request \<Rightarrow> error option"
  Company :: "'db Company"

section \<open>Effects\<close>

text \<open>
  A handler runs in a world: the backing store and the trace of what the handler has done
  so far (validator runs, console output, calls of the model), oldest first. It ends with
  a response or with the error it throws.
\<close>

datatype 's event =
    Validate jsval 's
  | Console_log string jsval
  | Company_create jsval
  | Company_findAll jsval
  | Company_get string
  | Company_update string jsval
  | Company_remove string

record ('db, 's) world =
  db :: 'db
  trace :: "'s event list"

type_synonym ('a, 'db, 's) prog = "('db, 's) world \<Rightarrow> (error + 'a) \<times> ('db, 's) world"

definition return :: "'a \<Rightarrow> ('a, 'db, 's) prog" where
  "return x = (\<lambda>w. (Inr x, w))"

definition throw :: "error \<Rightarrow> ('a, 'db, 's) prog" where
  "throw e = (\<lambda>w. (Inl e, w))"

definition bind :: "('a, 'db, 's) prog \<Rightarrow> ('a \<Rightarrow> ('b, 'db, 's) prog) \<Rightarrow> ('b, 'db, 's) prog" where
  "bind m f = (\<lambda>w. case m w of (Inl e, w') \<Rightarrow> (Inl e, w') | (Inr x, w') \<Rightarrow> f x w')"

definition emit :: "'s event \<Rightarrow> ('db, 's) world \<Rightarrow> ('db, 's) world" where
  "emit ev w = w\<lparr>trace := trace w @ [ev]\<rparr>"

text \<open>A call of the model: recorded, then run on the store.\<close>

definition call :: "'s event \<Rightarrow> ('db \<Rightarrow> (error + 'a) \<times> 'db) \<Rightarrow> ('a, 'db, 's) prog" where
  "call ev f = (\<lambda>w. case f (db w) of (r, d) \<Rightarrow> (r, (emit ev w)\<lparr>db := d\<rparr>))"

definition jsonschema_validate :: "('db, 's) env \<Rightarrow> jsval \<Rightarrow> 's \<Rightarrow> (validator_result, 'db, 's) prog" where
  "jsonschema_validate E instance schema = (\<lambda>w. (Inr (validate E instance schema), emit (Validate instance schema) w))"

definition console_log :: "string \<Rightarrow> jsval \<Rightarrow> (unit, 'db, 's) prog" where
  "console_log s v = (\<lambda>w. (Inr (), emit (Console_log s v) w))"

text \<open>
  \<^verbatim>\<open>router.METHOD(path, m1, ..., handler)\<close>: the middleware run in order, and the first
  that fails ends the request with its error; the handler runs when all have passed.
\<close>

fun chain :: "(request \<Rightarrow> error option) list \<Rightarrow> (request \<Rightarrow> ('a, 'db, 's) prog) \<Rightarrow> request \<Rightarrow> ('a, 'db, 's) prog" where
  "chain [] h req = h req"
| "chain (m # ms) h req = (case m req of Some e \<Rightarrow> throw e | None \<Rightarrow> chain ms h req)"

section \<open>The routes\<close>

text \<open>\<^verbatim>\<open>router.post("/", ensureLoggedIn, ...)\<close>\<close>

definition post_root_handler :: "('db, 's) env \<Rightarrow> request \<Rightarrow> (response, 'db, 's) prog" where
  "post_root_handler E req =
     bind (jsonschema_validate E (body req) (companyNewSchema E)) (\<lambda>validator.
     bind (if \<not> valid validator
           then throw (BadRequestError (Messages (map stack (errors validator))))
           else return ()) (\<lambda>_.
     bind (call (Company_create (body req)) (create (Company E) (body req))) (\<lambda>company.
     return \<lparr>status = 201, json = Object [(''company'', company)]\<rparr>)))"

definition router_post_root :: "('db, 's) env \<Rightarrow> request \<Rightarrow> (response, 'db, 's) prog" where
  "router_post_root E = chain [ensureLoggedIn E] (post_root_handler E)"

text \<open>\<^verbatim>\<open>router.get("/", ...)\<close>\<close>

definition router_get_root :: "('db, 's) env \<Rightarrow> request \<Rightarrow> (response, 'db, 's) prog" where
  "router_get_root E req =
     bind (let q = query req in
           if truthy (get_prop q ''minEmployees'') then
             let n = parseInt (Number_toString E) (get_prop q ''minEmployees'');
                 q = set_prop q ''minEmployees'' (Number n)
             in if isNaN n
                then throw (BadRequestError (Message ''minEmployees must be a number.''))
                else return q
           else return q) (\<lambda>q.
     bind (if truthy (get_prop q ''maxEmployees'') then
             let n = parseInt (Number_toString E) (get_prop q ''maxEmployees'');
                 q = set_prop q ''maxEmployees'' (Number n)
             in if isNaN n
                then throw (BadRequestError (Message ''maxEmployees must be a number.''))
                else return q
           else return q) (\<lambda>q.
     bind (console_log ''company route minEmployees: '' (get_prop q ''minEmployees'')) (\<lambda>_.
     bind (jsonschema_validate E (Object q) (companySearchFiltersSchema E)) (\<lambda>validator.
     bind (if \<not> valid validator
           then throw (BadRequestError (Messages (map stack (errors validator))))
           else return ()) (\<lambda>_.
     bind (call (Company_findAll (Object q)) (findAll (Company E) (Object q))) (\<lambda>companies.
     return \<lparr>status = 200, json = Object [(''companies'', companies)]\<rparr>))))))"

text \<open>\<^verbatim>\<open>router.get("/:handle", ...)\<close>\<close>

definition router_get_handle :: "('db, 's) env \<Rightarrow> request \<Rightarrow> (response, 'db, 's) prog" where
  "router_get_handle E req =
     bind (call (Company_get (handle req)) (get (Company E) (handle req))) (\<lambda>company.
     return \<lparr>status = 200, json = Object [(''company'', company)]\<rparr>)"

text \<open>\<^verbatim>\<open>router.patch("/:handle", ensureLoggedIn, ...)\<close>\<close>

definition patch_handle_handler :: "('db, 's) env \<Rightarrow> request \<Rightarrow> (response, 'db, 's) prog" where
  "patch_handle_handler E req =
     bind (jsonschema_validate E (body req) (companyUpdateSchema E)) (\<lambda>validator.
     bind (if \<not> valid validator
           then throw (BadRequestError (Messages (map stack (errors validator))))
           else return ()) (\<lambda>_.
     bind (call (Company_update (handle req) (body req))
             (update (Company E) (handle req) (body req))) (\<lambda>company.
     return \<lparr>status = 200, json = Object [(''company'', company)]\<rparr>)))"

definition router_patch_handle :: "('db, 's) env \<Rightarrow> request \<Rightarrow> (response, 'db, 's) prog" where
  "router_patch_handle E = chain [ensureLoggedIn E] (patch_handle_handler E)"

text \<open>\<^verbatim>\<open>router.delete("/:handle", ensureLoggedIn, ...)\<close>\<close>

definition delete_handle_handler :: "('db, 's) env \<Rightarrow> request \<Rightarrow> (response, 'db, 's) prog" where
  "delete_handle_handler E req =
     bind (call (Company_remove (handle req)) (remove (Company E) (handle req))) (\<lambda>_.
     return \<lparr>status = 200, json = Object [(''deleted'', String (handle req))]\<rparr>)"

definition router_delete_handle :: "('db, 's) env \<Rightarrow> request \<Rightarrow> (response, 'db, 's) prog" where
  "router_delete_handle E = chain [ensureLoggedIn E] (delete_handle_handler E)"

section \<open>Collaborators that the repository keeps in other files\<close>

text \<open>
  Modelled from the spec: the middleware \<^verbatim>\<open>ensureLoggedIn\<close> (\<^verbatim>\<open>middleware/auth\<close>) is missing
  from the sources. Section 6: the request must carry credentials recognized by the
  authorization collaborator; absence or invalidity produces an Unauthorized failure.
\<close>

definition ensureLoggedIn_spec :: "(string \<Rightarrow> bool) \<Rightarrow> request \<Rightarrow> error option" where
  "ensureLoggedIn_spec recognized req =
     (case credentials req of
        None \<Rightarrow> Some UnauthorizedError
      | Some c \<Rightarrow> if recognized c then None else Some UnauthorizedError)"

text \<open>
  Modelled from the spec: the three schema files (\<^verbatim>\<open>schemas/*.json\<close>) and what the
  validator does with them are missing from the sources. Section 3 gives each field a
  type: a string, a string that is a URL, a non-negative integer. A schema lists its
  fields with their types and the fields it requires; a key it does not list is rejected
  (sections 4.1 and 6), and so is a body that is not an object. The validator reports
  one message per violation, in the order of the instance's keys, then of the missing
  required fields. What counts as a URL is the parameter \<open>is_url\<close>.
\<close>

datatype field_type = StringField | UrlField | CountField

record schema =
  properties :: "(string \<times> field_type) list"
  required :: "string list"

fun has_type :: "(string \<Rightarrow> bool) \<Rightarrow> field_type \<Rightarrow> jsval \<Rightarrow> bool" where
  "has_type is_url StringField (String s) = True"
| "has_type is_url UrlField (String s) = is_url s"
| "has_type is_url CountField (Number (Finite r)) = (0 \<le> r \<and> of_int \<lfloor>r\<rfloor> = r)"
| "has_type is_url _ _ = False"

fun type_name :: "field_type \<Rightarrow> string" where
  "type_name StringField = ''string''"
| "type_name UrlField = ''uri''"
| "type_name CountField = ''non-negative integer''"

definition property_errors :: "(string \<Rightarrow> bool) \<Rightarrow> schema \<Rightarrow> string \<times> jsval \<Rightarrow> validation_error list" where
  "property_errors is_url S kv =
     (case map_of (properties S) (fst kv) of
        None \<Rightarrow> [ValidationError (''instance is not allowed to have the additional property '' @ fst kv)]
      | Some t \<Rightarrow>
          if has_type is_url t (snd kv) then []
          else [ValidationError (''instance.'' @ fst kv @ '' is not of type '' @ type_name t)])"

text \<open>
  Modelled from the spec: the validator (\<^verbatim>\<open>jsonschema.validate\<close> on the missing schema
  files). Sections 4.1 and 7: it reports the ordered list of its messages, and the
  instance is valid when there is none.
\<close>

definition validate_spec :: "(string \<Rightarrow> bool) \<Rightarrow> jsval \<Rightarrow> schema \<Rightarrow> validator_result" where
  "validate_spec is_url instance S =
     (let errs =
        (case instance of
           Object kvs \<Rightarrow>
             concat (map (property_errors is_url S) kvs)
               @ map (\<lambda>k. ValidationError (''instance requires property '' @ k))
                   (filter (\<lambda>k. map_of kvs k = None) (required S))
         | _ \<Rightarrow> [ValidationError ''instance is not of type object''])
      in \<lparr>valid = (errs = []), errors = errs\<rparr>)"

text \<open>
  Modelled from the spec: \<^verbatim>\<open>schemas/companyNew.json\<close>, missing from the sources. Section 3:
  a company record has a handle, a name and a description, and may have numEmployees and
  logoUrl.
\<close>

definition companyNewSchema_spec :: schema where
  "companyNewSchema_spec =
     \<lparr>properties = [(''handle'', StringField), (''name'', StringField),
        (''description'', StringField), (''numEmployees'', CountField), (''logoUrl'', UrlField)],
      required = [''handle'', ''name'', ''description'']\<rparr>"

text \<open>
  Modelled from the spec: \<^verbatim>\<open>schemas/companyUpdate.json\<close>, missing from the sources.
  Sections 3 and 4.1: any subset of name, description, numEmployees and logoUrl, no field
  required; a handle in the body is rejected.
\<close>

definition companyUpdateSchema_spec :: schema where
  "companyUpdateSchema_spec =
     \<lparr>properties = [(''name'', StringField), (''description'', StringField),
        (''numEmployees'', CountField), (''logoUrl'', UrlField)],
      required = []\<rparr>"

text \<open>
  Modelled from the spec: \<^verbatim>\<open>schemas/companySearchFilters.json\<close>, missing from the sources.
  Sections 3 and 4.1: optional nameLike, minEmployees and maxEmployees, the bounds integers
  from 0 on; unknown keys are rejected.
\<close>

definition companySearchFiltersSchema_spec :: schema where
  "companySearchFiltersSchema_spec =
     \<lparr>properties = [(''nameLike'', StringField), (''minEmployees'', CountField),
        (''maxEmployees'', CountField)],
      required = []\<rparr>"

text \<open>
  Modelled from the spec: the model \<^verbatim>\<open>Company\<close> (\<^verbatim>\<open>models/company\<close>) is missing from the
  sources. Sections 4.1 and 7: \<open>create\<close> stores the record and fails with a conflict when
  the handle exists; \<open>get\<close>, \<open>update\<close> and \<open>remove\<close> fail with NotFound on an unknown
  handle; \<open>get\<close> attaches the jobs of the company; \<open>findAll\<close> keeps the records that pass
  every filter given (at least \<open>minEmployees\<close>, at most \<open>maxEmployees\<close> employees, a name
  that contains \<open>nameLike\<close> whatever the case). The store is the list of the records by
  handle; it holds no jobs.
\<close>

definition lower :: "char \<Rightarrow> char" where
  "lower c =
     (case map_of (zip ''ABCDEFGHIJKLMNOPQRSTUVWXYZ'' ''abcdefghijklmnopqrstuvwxyz'') c of
        None \<Rightarrow> c
      | Some l \<Rightarrow> l)"

fun contains :: "string \<Rightarrow> string \<Rightarrow> bool" where
  "contains [] p = (p = [])"
| "contains (c # s) p = (take (length p) (c # s) = p \<or> contains s p)"

definition passes :: "(string \<times> jsval) list \<Rightarrow> jsval \<Rightarrow> bool" where
  "passes filters company =
     (case company of
        Object props \<Rightarrow>
          (case get_prop filters ''nameLike'' of
             String p \<Rightarrow>
               (case get_prop props ''name'' of
                  String s \<Rightarrow> contains (map lower s) (map lower p)
                | _ \<Rightarrow> False)
           | _ \<Rightarrow> True) \<and>
          (case get_prop filters ''minEmployees'' of
             Number (Finite a) \<Rightarrow>
               (case get_prop props ''numEmployees'' of
                  Number (Finite n) \<Rightarrow> a \<le> n
                | _ \<Rightarrow> False)
           | _ \<Rightarrow> True) \<and>
          (case get_prop filters ''maxEmployees'' of
             Number (Finite b) \<Rightarrow>
               (case get_prop props ''numEmployees'' of
                  Number (Finite n) \<Rightarrow> n \<le> b
                | _ \<Rightarrow> False)
           | _ \<Rightarrow> True)
      | _ \<Rightarrow> False)"

type_synonym store = "(string \<times> jsval) list"

definition store_create :: "jsval \<Rightarrow> store \<Rightarrow> (error + jsval) \<times> store" where
  "store_create company d =
     (case company of
        Object props \<Rightarrow>
          (case get_prop props ''handle'' of
             String h \<Rightarrow>
               if map_of d h = None then (Inr company, d @ [(h, company)])
               else (Inl (ConflictError h), d)
           | _ \<Rightarrow> (Inl (OtherError ''handle''), d))
      | _ \<Rightarrow> (Inl (OtherError ''handle''), d))"

definition store_findAll :: "jsval \<Rightarrow> store \<Rightarrow> (error + jsval) \<times> store" where
  "store_findAll filters d =
     (case filters of
        Object fs \<Rightarrow> (Inr (Array (filter (passes fs) (map snd d))), d)
      | _ \<Rightarrow> (Inr (Array (map snd d)), d))"

definition store_get :: "string \<Rightarrow> store \<Rightarrow> (error + jsval) \<times> store" where
  "store_get h d =
     (case map_of d h of
        Some (Object props) \<Rightarrow> (Inr (Object (props @ [(''jobs'', Array [])])), d)
      | _ \<Rightarrow> (Inl (NotFoundError h), d))"

definition store_update :: "string \<Rightarrow> jsval \<Rightarrow> store \<Rightarrow> (error + jsval) \<times> store" where
  "store_update h patch d =
     (case map_of d h of
        Some (Object props) \<Rightarrow>
          (let company =
             Object (foldl (\<lambda>fs kv. set_prop fs (fst kv) (snd kv)) props
                       (case patch of Object kvs \<Rightarrow> kvs | _ \<Rightarrow> []))
           in (Inr company, AList.update h company d))
      | _ \<Rightarrow> (Inl (NotFoundError h), d))"

definition store_remove :: "string \<Rightarrow> store \<Rightarrow> (error + unit) \<times> store" where
  "store_remove h d =
     (if map_of d h = None then (Inl (NotFoundError h), d) else (Inr (), AList.delete h d))"

text \<open>
  Modelled from the spec: the five methods of the model \<^verbatim>\<open>Company\<close>, on the store above.
\<close>

definition Company_spec :: "store Company" where
  "Company_spec =
     \<lparr>create = store_create, findAll = store_findAll, get = store_get,
      update = store_update, remove = store_remove\<rparr>"

text \<open>The routes with all of their collaborators as the specification describes them.\<close>

definition env_spec :: "(jsnum \<Rightarrow> string) \<Rightarrow> (string \<Rightarrow> bool) \<Rightarrow> (string \<Rightarrow> bool) \<Rightarrow> (store, schema) env" where
  "env_spec nts is_url recognized =
     \<lparr>Number_toString = nts,
      validate = validate_spec is_url,
      companyNewSchema = companyNewSchema_spec,
      companyUpdateSchema = companyUpdateSchema_spec,
      companySearchFiltersSchema = companySearchFiltersSchema_spec,
      ensureLoggedIn = ensureLoggedIn_spec recognized,
      Company = Company_spec\<rparr>"

section \<open>Notions used to state the properties\<close>

text \<open>
  The router: the five routes the file registers, each with its middleware.
\<close>

datatype route = POST_root | GET_root | GET_handle | PATCH_handle | DELETE_handle


text \<open>
  The list handler in steps: the coercion of one bound (the handler has this block twice,
  for \<^verbatim>\<open>minEmployees\<close> and for \<^verbatim>\<open>maxEmployees\<close>), and what the handler does once both
  bounds are coerced. Lemma \<open>router_get_root_steps\<close> shows that the handler is the
  sequence of the three.
\<close>

definition coerce_bound :: "('db, 's) env \<Rightarrow> string \<Rightarrow> (string \<times> jsval) list \<Rightarrow> ((string \<times> jsval) list, 'db, 's) prog" where
  "coerce_bound E k q =
     (if truthy (get_prop q k) then
        let n = parseInt (Number_toString E) (get_prop q k);
            q = set_prop q k (Number n)
        in if isNaN n
           then throw (BadRequestError (Message (k @ '' must be a number.'')))
           else return q
      else return q)"

definition after_coercion :: "('db, 's) env \<Rightarrow> (string \<times> jsval) list \<Rightarrow> (response, 'db, 's) prog" where
  "after_coercion E q =
     bind (console_log ''company route minEmployees: '' (get_prop q ''minEmployees'')) (\<lambda>_.
     bind (jsonschema_validate E (Object q) (companySearchFiltersSchema E)) (\<lambda>validator.
     bind (if \<not> valid validator
           then throw (BadRequestError (Messages (map stack (errors validator))))
           else return ()) (\<lambda>_.
     bind (call (Company_findAll (Object q)) (findAll (Company E) (Object q))) (\<lambda>companies.
     return \<lparr>status = 200, json = Object [(''companies'', companies)]\<rparr>))))"

text \<open>What the two assignments of the list handler leave in \<^verbatim>\<open>req.query\<close>.\<close>

definition coerced_query :: "(jsnum \<Rightarrow> string) \<Rightarrow> (string \<times> jsval) list \<Rightarrow> (string \<times> jsval) list" where
  "coerced_query nts q =
     (let q = (if truthy (get_prop q ''minEmployees'')
               then set_prop q ''minEmployees'' (Number (parseInt nts (get_prop q ''minEmployees'')))
               else q)
      in if truthy (get_prop q ''maxEmployees'')
         then set_prop q ''maxEmployees'' (Number (parseInt nts (get_prop q ''maxEmployees'')))
         else q)"

text \<open>
  The query with its bounds coerced, said directly: every \<^verbatim>\<open>minEmployees\<close> or
  \<^verbatim>\<open>maxEmployees\<close> property with a truthy value holds the Number that \<^verbatim>\<open>parseInt\<close> makes
  of it, and every other property is as it was.
\<close>

definition is_bound :: "string \<Rightarrow> bool" where
  "is_bound k = (k = ''minEmployees'' \<or> k = ''maxEmployees'')"

definition normalized_query :: "(jsnum \<Rightarrow> string) \<Rightarrow> (string \<times> jsval) list \<Rightarrow> (string \<times> jsval) list" where
  "normalized_query nts q =
     map (\<lambda>kv. if is_bound (fst kv) \<and> truthy (snd kv)
                then (fst kv, Number (parseInt nts (snd kv))) else kv) q"





text \<open>
  An update patch (section 3): a partial company record without the handle, that is, any
  subset of the fields name, description, numEmployees and logoUrl, each of its type.
\<close>

fun patch_field :: "(string \<Rightarrow> bool) \<Rightarrow> string \<times> jsval \<Rightarrow> bool" where
  "patch_field is_url (k, String s) =
     (k = ''name'' \<or> k = ''description'' \<or> (k = ''logoUrl'' \<and> is_url s))"
| "patch_field is_url (k, Number (Finite r)) = (k = ''numEmployees'' \<and> 0 \<le> r \<and> of_int \<lfloor>r\<rfloor> = r)"
| "patch_field is_url _ = False"

definition UpdatePatch :: "(string \<Rightarrow> bool) \<Rightarrow> jsval \<Rightarrow> bool" where
  "UpdatePatch is_url b = (case b of Object kvs \<Rightarrow> list_all (patch_field is_url) kvs | _ \<Rightarrow> False)"

text \<open>
  A query that is shaped as search filters (section 3) apart from the numeric content of
  its bounds: every key is \<^verbatim>\<open>nameLike\<close>, \<^verbatim>\<open>minEmployees\<close> or \<^verbatim>\<open>maxEmployees\<close>, and \<^verbatim>\<open>nameLike\<close>
  holds a string.
\<close>

fun query_field :: "string \<times> jsval \<Rightarrow> bool" where
  "query_field (k, String s) = (k = ''nameLike'' \<or> k = ''minEmployees'' \<or> k = ''maxEmployees'')"
| "query_field (k, v) = (k = ''minEmployees'' \<or> k = ''maxEmployees'')"




text \<open>
  A concrete setting to run the routes in: the collaborators of the specification, one
  company in the store, one known token, URLs that begin with \<^verbatim>\<open>http\<close>. No request below
  holds a Number in its query, so Number::toString is never reached; it is the constant
  empty string.
\<close>

definition example_env :: "(store, schema) env" where
  "example_env = env_spec (\<lambda>n. []) (\<lambda>s. take 4 s = ''http'') (\<lambda>c. c = ''token'')"

definition acme :: jsval where
  "acme = Object [(''handle'', String ''acme''), (''name'', String ''Acme''),
     (''description'', String ''Anvils''), (''numEmployees'', Number (Finite 10))]"

definition example_world :: "(store, schema) world" where
  "example_world = \<lparr>db = [(''acme'', acme)], trace = []\<rparr>"

definition anonymous :: request where
  "anonymous = \<lparr>credentials = None, handle = [], query = [], body = Object []\<rparr>"

definition logged_in :: request where
  "logged_in = \<lparr>credentials = Some ''token'', handle = [], query = [], body = Object []\<rparr>"

definition globex :: jsval where
  "globex = Object [(''handle'', String ''globex''), (''name'', String ''Globex''),
     (''description'', String ''Power''), (''numEmployees'', Number (Finite 3))]"

definition slogan :: jsval where
  "slogan = Object [(''description'', String ''Anvils and more''),
     (''numEmployees'', Number (Finite 12))]"

section \<open>Basic facts\<close>

lemma bind_return: "bind (return x) f = f x"
  by (simp add: bind_def return_def)

lemma bind_throw: "bind (throw e) f = throw e"
  by (simp add: bind_def throw_def)

lemma get_prop_set_prop: "get_prop (set_prop q k v) k' = (if k' = k then v else get_prop q k')"
  by (simp add: get_prop_def set_prop_def update_conv')

lemma router_get_root_steps:
  "router_get_root E req =
     bind (coerce_bound E ''minEmployees'' (query req)) (\<lambda>q.
     bind (coerce_bound E ''maxEmployees'' q) (after_coercion E))"
  unfolding router_get_root_def coerce_bound_def after_coercion_def [abs_def]
  by (simp add: Let_def cong: if_cong)

lemmas prog_defs =
  bind_def return_def throw_def call_def emit_def jsonschema_validate_def console_log_def

lemmas example_defs =
  example_env_def env_spec_def example_world_def anonymous_def logged_in_def acme_def
  Company_spec_def ensureLoggedIn_spec_def

lemmas validate_defs =
  validate_spec_def property_errors_def companyNewSchema_spec_def
  companyUpdateSchema_spec_def companySearchFiltersSchema_spec_def

lemmas parseInt_defs =
  parseInt_def parseInt_string_def isWhiteSpace_def isRadixDigit_def digitValue_def
  mathInt_def Number_of_int_def round_to_double_def

subsection \<open>The list handler, step by step\<close>

lemma coerce_bound_eq:
  "coerce_bound E k q =
     (if truthy (get_prop q k) \<and> isNaN (parseInt (Number_toString E) (get_prop q k))
      then throw (BadRequestError (Message (k @ '' must be a number.'')))
      else return (if truthy (get_prop q k)
                   then set_prop q k (Number (parseInt (Number_toString E) (get_prop q k)))
                   else q))"
  by (simp add: coerce_bound_def Let_def)

lemma router_get_root_result:
  "router_get_root E req w =
     (if truthy (get_prop (query req) ''minEmployees'')
         \<and> isNaN (parseInt (Number_toString E) (get_prop (query req) ''minEmployees''))
      then (Inl (BadRequestError (Message ''minEmployees must be a number.'')), w)
      else if truthy (get_prop (query req) ''maxEmployees'')
         \<and> isNaN (parseInt (Number_toString E) (get_prop (query req) ''maxEmployees''))
      then (Inl (BadRequestError (Message ''maxEmployees must be a number.'')), w)
      else after_coercion E (coerced_query (Number_toString E) (query req)) w)"
  by (simp add: router_get_root_steps coerce_bound_eq bind_return bind_throw
      coerced_query_def get_prop_set_prop Let_def)
     (simp add: throw_def)

lemma after_coercion_result:
  "after_coercion E q w =
     (let validator = validate E (Object q) (companySearchFiltersSchema E);
          validated = trace w @ [Console_log ''company route minEmployees: '' (get_prop q ''minEmployees''),
                                 Validate (Object q) (companySearchFiltersSchema E)]
      in if \<not> valid validator
         then (Inl (BadRequestError (Messages (map stack (errors validator)))),
               \<lparr>db = db w, trace = validated\<rparr>)
         else
           (case findAll (Company E) (Object q) (db w) of
              (Inl e, d) \<Rightarrow> (Inl e, \<lparr>db = d, trace = validated @ [Company_findAll (Object q)]\<rparr>)
            | (Inr companies, d) \<Rightarrow>
                (Inr \<lparr>status = 200, json = Object [(''companies'', companies)]\<rparr>,
                 \<lparr>db = d, trace = validated @ [Company_findAll (Object q)]\<rparr>)))"
  by (simp add: after_coercion_def prog_defs Let_def split: prod.splits sum.splits)

lemma update_as_map:
  "distinct (map fst q) \<Longrightarrow> k \<in> fst ` set q \<Longrightarrow>
     AList.update k v q = map (\<lambda>kv. if fst kv = k then (k, v) else kv) q"
proof (induction q)
  case Nil
  then show ?case by simp
next
  case (Cons a q)
  show ?case
  proof (cases "fst a = k")
    case True
    with Cons.prems have "k \<notin> fst ` set q" by auto
    then have "map (\<lambda>kv. if fst kv = k then (k, v) else kv) q = q"
      by (intro map_idI) auto
    with True show ?thesis by simp
  next
    case False
    with Cons show ?thesis by auto
  qed
qed

lemma set_prop_as_map:
  "distinct (map fst q) \<Longrightarrow> truthy (get_prop q k) \<Longrightarrow>
     set_prop q k v = map (\<lambda>kv. if fst kv = k then (k, v) else kv) q"
  unfolding set_prop_def
  by (rule update_as_map) (auto simp: get_prop_def split: option.splits dest!: map_of_SomeD intro: rev_image_eqI)

lemma get_prop_distinct: "distinct (map fst q) \<Longrightarrow> (k, v) \<in> set q \<Longrightarrow> get_prop q k = v"
  by (simp add: get_prop_def)

lemma coerced_query_normalized:
  assumes "distinct (map fst q)"
  shows "coerced_query nts q = normalized_query nts q"
proof -
  have lookup: "get_prop q (fst kv) = snd kv" if "kv \<in> set q" for kv
    using get_prop_distinct [OF assms, of "fst kv" "snd kv"] that by simp
  let ?q1 = "if truthy (get_prop q ''minEmployees'')
      then set_prop q ''minEmployees'' (Number (parseInt nts (get_prop q ''minEmployees''))) else q"
  have q1: "?q1 = map (\<lambda>kv. if fst kv = ''minEmployees'' \<and> truthy (snd kv)
      then (fst kv, Number (parseInt nts (snd kv))) else kv) q"
  proof (cases "truthy (get_prop q ''minEmployees'')")
    case True
    then have "?q1 = map (\<lambda>kv. if fst kv = ''minEmployees''
        then (''minEmployees'', Number (parseInt nts (get_prop q ''minEmployees''))) else kv) q"
      by (simp add: set_prop_as_map [OF assms])
    also have "\<dots> = map (\<lambda>kv. if fst kv = ''minEmployees'' \<and> truthy (snd kv)
        then (fst kv, Number (parseInt nts (snd kv))) else kv) q"
      using True lookup by (intro map_cong) auto
    finally show ?thesis .
  next
    case False
    then have "map (\<lambda>kv. if fst kv = ''minEmployees'' \<and> truthy (snd kv)
        then (fst kv, Number (parseInt nts (snd kv))) else kv) q = q"
      using lookup by (intro map_idI) auto
    with False show ?thesis by simp
  qed
  have d1: "distinct (map fst ?q1)"
    using assms by (simp add: set_prop_def distinct_update)
  have max1: "get_prop ?q1 ''maxEmployees'' = get_prop q ''maxEmployees''"
    by (simp add: get_prop_set_prop)
  have lookup1: "get_prop ?q1 (fst kv) = snd kv" if "kv \<in> set ?q1" for kv
    using get_prop_distinct [OF d1, of "fst kv" "snd kv"] that by simp
  let ?gmax = "\<lambda>kv. if fst kv = ''maxEmployees'' \<and> truthy (snd kv)
      then (fst kv, Number (parseInt nts (snd kv))) else kv"
  have "coerced_query nts q =
      (if truthy (get_prop q ''maxEmployees'')
       then set_prop ?q1 ''maxEmployees'' (Number (parseInt nts (get_prop q ''maxEmployees'')))
       else ?q1)"
    unfolding coerced_query_def Let_def max1 ..
  also have "\<dots> = map ?gmax ?q1"
  proof (cases "truthy (get_prop q ''maxEmployees'')")
    case True
    then have "truthy (get_prop ?q1 ''maxEmployees'')"
      by (simp only: max1)
    then have "set_prop ?q1 ''maxEmployees'' (Number (parseInt nts (get_prop q ''maxEmployees'')))
        = map (\<lambda>kv. if fst kv = ''maxEmployees''
            then (''maxEmployees'', Number (parseInt nts (get_prop q ''maxEmployees''))) else kv) ?q1"
      by (rule set_prop_as_map [OF d1])
    also have "\<dots> = map ?gmax ?q1"
    proof (rule map_cong [OF refl])
      fix kv assume "kv \<in> set ?q1"
      from lookup1 [OF this] have "fst kv = ''maxEmployees'' \<Longrightarrow> snd kv = get_prop q ''maxEmployees''"
        by (simp only: max1)
      with True show "(if fst kv = ''maxEmployees''
            then (''maxEmployees'', Number (parseInt nts (get_prop q ''maxEmployees''))) else kv)
          = ?gmax kv"
        by auto
    qed
    finally show ?thesis using True by simp
  next
    case False
    have "map ?gmax ?q1 = ?q1"
    proof (rule map_idI)
      fix kv assume "kv \<in> set ?q1"
      from lookup1 [OF this] have "fst kv = ''maxEmployees'' \<Longrightarrow> snd kv = get_prop q ''maxEmployees''"
        by (simp only: max1)
      with False show "?gmax kv = kv" by auto
    qed
    with False show ?thesis by simp
  qed
  also have "\<dots> = map ?gmax (map (\<lambda>kv. if fst kv = ''minEmployees'' \<and> truthy (snd kv)
      then (fst kv, Number (parseInt nts (snd kv))) else kv) q)"
    by (subst q1) (rule refl)
  also have "\<dots> = normalized_query nts q"
    by (auto simp: normalized_query_def is_bound_def)
  finally show ?thesis .
qed



subsection \<open>parseInt on a decimal prefix\<close>










section \<open>Fetching one company\<close>

text \<open>
  Claim C6. \<^verbatim>\<open>GET /companies/:handle\<close> runs no middleware and no validator: whatever the
  request carries and whatever the collaborators are, it makes the one call
  \<^verbatim>\<open>Company.get(handle)\<close>. When the model throws (NotFound for an unknown handle) the
  route ends with that same error; otherwise it answers 200 with the company the model
  returned (jobs included) under \<^verbatim>\<open>company\<close>.
\<close>

theorem get_handle_calls_get:
  "router_get_handle E req w =
     (case get (Company E) (handle req) (db w) of
        (Inl e, d) \<Rightarrow> (Inl e, \<lparr>db = d, trace = trace w @ [Company_get (handle req)]\<rparr>)
      | (Inr company, d) \<Rightarrow>
          (Inr \<lparr>status = 200, json = Object [(''company'', company)]\<rparr>,
           \<lparr>db = d, trace = trace w @ [Company_get (handle req)]\<rparr>))"
  by (simp add: router_get_handle_def prog_defs split: prod.splits sum.splits)

text \<open>
  A request without credentials fetches the stored company, with an empty list of jobs;
  an unknown handle gives the NotFound of the model.
\<close>

theorem get_handle_calls_get_witness:
  "router_get_handle example_env (anonymous\<lparr>handle := ''acme''\<rparr>) example_world =
     (Inr \<lparr>status = 200,
           json = Object [(''company'', Object [(''handle'', String ''acme''),
             (''name'', String ''Acme''), (''description'', String ''Anvils''),
             (''numEmployees'', Number (Finite 10)), (''jobs'', Array [])])]\<rparr>,
      \<lparr>db = [(''acme'', acme)], trace = [Company_get ''acme'']\<rparr>)
   \<and> router_get_handle example_env (anonymous\<lparr>handle := ''ghost''\<rparr>) example_world =
     (Inl (NotFoundError ''ghost''),
      \<lparr>db = [(''acme'', acme)], trace = [Company_get ''ghost'']\<rparr>)"
  unfolding get_handle_calls_get
  by (simp add: example_defs store_get_def)

section \<open>Deleting a company\<close>

text \<open>
  Claim C7. For a caller that the middleware lets through, \<^verbatim>\<open>DELETE /companies/:handle\<close>
  makes the one call \<^verbatim>\<open>Company.remove(handle)\<close>. When the model throws (NotFound for a
  handle that does not exist, one already removed included) the route ends with that same
  error and reports no success; otherwise it answers 200 with \<^verbatim>\<open>{ deleted: handle }\<close>, the
  handle being the path parameter.
\<close>

theorem delete_calls_remove:
  assumes "ensureLoggedIn E req = None"
  shows "router_delete_handle E req w =
     (case remove (Company E) (handle req) (db w) of
        (Inl e, d) \<Rightarrow> (Inl e, \<lparr>db = d, trace = trace w @ [Company_remove (handle req)]\<rparr>)
      | (Inr u, d) \<Rightarrow>
          (Inr \<lparr>status = 200, json = Object [(''deleted'', String (handle req))]\<rparr>,
           \<lparr>db = d, trace = trace w @ [Company_remove (handle req)]\<rparr>))"
  using assms
  by (simp add: router_delete_handle_def delete_handle_handler_def prog_defs
      split: prod.splits sum.splits)

text \<open>Deleting the stored company succeeds; deleting it again gives NotFound.\<close>

theorem delete_calls_remove_witness:
  "router_delete_handle example_env (logged_in\<lparr>handle := ''acme''\<rparr>) example_world =
     (Inr \<lparr>status = 200, json = Object [(''deleted'', String ''acme'')]\<rparr>,
      \<lparr>db = [], trace = [Company_remove ''acme'']\<rparr>)
   \<and> router_delete_handle example_env (logged_in\<lparr>handle := ''acme''\<rparr>)
       \<lparr>db = [], trace = [Company_remove ''acme'']\<rparr> =
     (Inl (NotFoundError ''acme''),
      \<lparr>db = [], trace = [Company_remove ''acme'', Company_remove ''acme'']\<rparr>)"
proof -
  have auth: "ensureLoggedIn example_env (logged_in\<lparr>handle := ''acme''\<rparr>) = None"
    by (simp add: example_defs)
  show ?thesis
    unfolding delete_calls_remove [OF auth]
    by (simp add: example_defs store_remove_def AList.delete_eq)
qed

section \<open>Creating a company\<close>

text \<open>
  Claim C5. For a caller that the middleware lets through, \<^verbatim>\<open>POST /companies\<close> first
  validates the body against the new-company schema. When the validator rejects the body,
  the route ends with a BadRequest that carries the validator's messages in the
  validator's order, and \<^verbatim>\<open>Company.create\<close> is not called (the store is as it was). When
  the validator accepts it, the route makes the one call \<^verbatim>\<open>Company.create(body)\<close> and
  answers 201 with the company the model returned under \<^verbatim>\<open>company\<close>; an error of the
  model (a conflict on the handle) is the error of the route.
\<close>

theorem post_validates_then_creates:
  assumes "ensureLoggedIn E req = None"
  shows "router_post_root E req w =
     (let validator = validate E (body req) (companyNewSchema E);
          validated = trace w @ [Validate (body req) (companyNewSchema E)]
      in if \<not> valid validator
         then (Inl (BadRequestError (Messages (map stack (errors validator)))),
               \<lparr>db = db w, trace = validated\<rparr>)
         else
           (case create (Company E) (body req) (db w) of
              (Inl e, d) \<Rightarrow>
                (Inl e, \<lparr>db = d, trace = validated @ [Company_create (body req)]\<rparr>)
            | (Inr company, d) \<Rightarrow>
                (Inr \<lparr>status = 201, json = Object [(''company'', company)]\<rparr>,
                 \<lparr>db = d, trace = validated @ [Company_create (body req)]\<rparr>)))"
  using assms
  by (simp add: router_post_root_def post_root_handler_def prog_defs Let_def
      split: prod.splits sum.splits)

text \<open>
  A body of the wrong shape is refused with one message per violation; a new company is
  stored and returned with 201; a second company with the handle \<^verbatim>\<open>acme\<close> is a conflict.
\<close>

theorem post_validates_then_creates_witness:
  "router_post_root example_env (logged_in\<lparr>body := Object [(''name'', Number (Finite 5)), (''size'', Null)]\<rparr>) example_world =
     (Inl (BadRequestError (Messages
        [''instance.name is not of type string'',
         ''instance is not allowed to have the additional property size'',
         ''instance requires property handle'',
         ''instance requires property description''])),
      \<lparr>db = [(''acme'', acme)],
        trace = [Validate (Object [(''name'', Number (Finite 5)), (''size'', Null)]) companyNewSchema_spec]\<rparr>)
   \<and> router_post_root example_env (logged_in\<lparr>body := globex\<rparr>) example_world =
     (Inr \<lparr>status = 201, json = Object [(''company'', globex)]\<rparr>,
      \<lparr>db = [(''acme'', acme), (''globex'', globex)],
        trace = [Validate globex companyNewSchema_spec, Company_create globex]\<rparr>)
   \<and> router_post_root example_env (logged_in\<lparr>body := acme\<rparr>) example_world =
     (Inl (ConflictError ''acme''),
      \<lparr>db = [(''acme'', acme)],
        trace = [Validate acme companyNewSchema_spec, Company_create acme]\<rparr>)"
proof -
  have auth: "ensureLoggedIn example_env (logged_in\<lparr>body := b\<rparr>) = None" for b
    by (simp add: example_defs)
  show ?thesis
    unfolding post_validates_then_creates [OF auth]
    by (simp add: example_defs validate_defs globex_def store_create_def get_prop_def)
qed

section \<open>The authorization gate\<close>

text \<open>
  Claim C2. With the middleware of the specification, a request that carries no
  credentials, or credentials that are not recognized, ends with Unauthorized on each of
  the three mutating routes (\<^verbatim>\<open>POST /\<close>, \<^verbatim>\<open>PATCH /:handle\<close>, \<^verbatim>\<open>DELETE /:handle\<close>), and the
  world is untouched: the trace gains no validator run and no call of the model, and the
  store is as it was.
\<close>

theorem mutating_routes_need_credentials:
  assumes "ensureLoggedIn E = ensureLoggedIn_spec recognized"
    and "\<forall>c. credentials req = Some c \<longrightarrow> \<not> recognized c"
  shows "router_post_root E req w = (Inl UnauthorizedError, w)
       \<and> router_patch_handle E req w = (Inl UnauthorizedError, w)
       \<and> router_delete_handle E req w = (Inl UnauthorizedError, w)"
proof -
  have "ensureLoggedIn E req = Some UnauthorizedError"
    using assms by (simp add: ensureLoggedIn_spec_def split: option.splits)
  then show ?thesis
    by (simp add: router_post_root_def router_patch_handle_def router_delete_handle_def throw_def)
qed

text \<open>No credentials on create and update, an unknown token on delete.\<close>

theorem mutating_routes_need_credentials_witness:
  "router_post_root example_env anonymous example_world = (Inl UnauthorizedError, example_world)
   \<and> router_patch_handle example_env (anonymous\<lparr>handle := ''acme''\<rparr>) example_world
       = (Inl UnauthorizedError, example_world)
   \<and> router_delete_handle example_env (anonymous\<lparr>credentials := Some ''guess'', handle := ''acme''\<rparr>) example_world
       = (Inl UnauthorizedError, example_world)"
proof -
  have gate: "ensureLoggedIn example_env = ensureLoggedIn_spec (\<lambda>c. c = ''token'')"
    by (simp add: example_env_def env_spec_def)
  have none: "\<forall>c. credentials anonymous = Some c \<longrightarrow> \<not> c = ''token''"
    "\<forall>c. credentials (anonymous\<lparr>handle := ''acme''\<rparr>) = Some c \<longrightarrow> \<not> c = ''token''"
    "\<forall>c. credentials (anonymous\<lparr>credentials := Some ''guess'', handle := ''acme''\<rparr>) = Some c \<longrightarrow> \<not> c = ''token''"
    by (simp_all add: anonymous_def)
  show ?thesis
    using mutating_routes_need_credentials [OF gate none(1), of example_world]
      mutating_routes_need_credentials [OF gate none(2), of example_world]
      mutating_routes_need_credentials [OF gate none(3), of example_world]
    by simp
qed

section \<open>Updating a company\<close>

lemma patch_handle_result:
  assumes "ensureLoggedIn E req = None"
  shows "router_patch_handle E req w =
     (let validator = validate E (body req) (companyUpdateSchema E);
          validated = trace w @ [Validate (body req) (companyUpdateSchema E)]
      in if \<not> valid validator
         then (Inl (BadRequestError (Messages (map stack (errors validator)))),
               \<lparr>db = db w, trace = validated\<rparr>)
         else
           (case update (Company E) (handle req) (body req) (db w) of
              (Inl e, d) \<Rightarrow>
                (Inl e, \<lparr>db = d, trace = validated @ [Company_update (handle req) (body req)]\<rparr>)
            | (Inr company, d) \<Rightarrow>
                (Inr \<lparr>status = 200, json = Object [(''company'', company)]\<rparr>,
                 \<lparr>db = d, trace = validated @ [Company_update (handle req) (body req)]\<rparr>)))"
  using assms
  by (simp add: router_patch_handle_def patch_handle_handler_def prog_defs Let_def
      split: prod.splits sum.splits)

lemma patch_field_no_errors:
  "patch_field is_url kv \<Longrightarrow> property_errors is_url companyUpdateSchema_spec kv = []"
  by (cases "(is_url, kv)" rule: patch_field.cases)
     (auto simp: property_errors_def companyUpdateSchema_spec_def)

lemma UpdatePatch_valid:
  assumes "UpdatePatch is_url b"
  shows "valid (validate_spec is_url b companyUpdateSchema_spec)"
proof -
  from assms obtain kvs where b: "b = Object kvs" and all: "list_all (patch_field is_url) kvs"
    by (auto simp: UpdatePatch_def split: jsval.splits)
  from all have "concat (map (property_errors is_url companyUpdateSchema_spec) kvs) = []"
    by (simp add: list_all_iff patch_field_no_errors)
  moreover have "required companyUpdateSchema_spec = []"
    by (simp add: companyUpdateSchema_spec_def)
  ultimately show ?thesis
    by (simp add: validate_spec_def b)
qed

lemma handle_key_invalid:
  assumes "(''handle'', v) \<in> set kvs"
  shows "\<not> valid (validate_spec is_url (Object kvs) companyUpdateSchema_spec)"
    and "errors (validate_spec is_url (Object kvs) companyUpdateSchema_spec) \<noteq> []"
proof -
  have "property_errors is_url companyUpdateSchema_spec (''handle'', v) \<noteq> []"
    by (simp add: property_errors_def companyUpdateSchema_spec_def)
  with assms have "concat (map (property_errors is_url companyUpdateSchema_spec) kvs) \<noteq> []"
    by force
  then show "\<not> valid (validate_spec is_url (Object kvs) companyUpdateSchema_spec)"
    and "errors (validate_spec is_url (Object kvs) companyUpdateSchema_spec) \<noteq> []"
    by (simp_all add: validate_spec_def)
qed

text \<open>
  Claim C3. With the validator and the update schema of the specification, and a caller
  that the middleware lets through: a body with a \<^verbatim>\<open>handle\<close> key is refused by
  \<^verbatim>\<open>PATCH /companies/:handle\<close> with a BadRequest that carries the validator's (non-empty)
  list of messages, and \<^verbatim>\<open>Company.update\<close> is not called; a body that is an update patch
  (any subset of name, description, numEmployees and logoUrl, each field of its type,
  none required) passes validation, the route makes the one call
  \<^verbatim>\<open>Company.update(handle, body)\<close> and answers 200 with the company the model returned;
  an error of the model (NotFound) is the error of the route.
\<close>

theorem patch_validates_then_updates:
  assumes "ensureLoggedIn E req = None"
    and "validate E = validate_spec is_url"
    and "companyUpdateSchema E = companyUpdateSchema_spec"
  shows "(\<forall>kvs v. body req = Object kvs \<and> (''handle'', v) \<in> set kvs \<longrightarrow>
            errors (validate_spec is_url (body req) companyUpdateSchema_spec) \<noteq> [] \<and>
            router_patch_handle E req w =
              (Inl (BadRequestError (Messages
                 (map stack (errors (validate_spec is_url (body req) companyUpdateSchema_spec))))),
               \<lparr>db = db w, trace = trace w @ [Validate (body req) companyUpdateSchema_spec]\<rparr>))
       \<and> (UpdatePatch is_url (body req) \<longrightarrow>
            router_patch_handle E req w =
              (case update (Company E) (handle req) (body req) (db w) of
                 (Inl e, d) \<Rightarrow>
                   (Inl e, \<lparr>db = d, trace = trace w @ [Validate (body req) companyUpdateSchema_spec,
                                                        Company_update (handle req) (body req)]\<rparr>)
               | (Inr company, d) \<Rightarrow>
                   (Inr \<lparr>status = 200, json = Object [(''company'', company)]\<rparr>,
                    \<lparr>db = d, trace = trace w @ [Validate (body req) companyUpdateSchema_spec,
                                                 Company_update (handle req) (body req)]\<rparr>)))"
  using handle_key_invalid [of _ _ is_url] UpdatePatch_valid [of is_url "body req"]
  by (auto simp: patch_handle_result [OF assms(1)] assms(2,3) Let_def
      split: prod.splits sum.splits)

text \<open>
  Scenario C of the specification, a patch with a handle, is refused; a patch of two
  fields updates the stored company.
\<close>

theorem patch_validates_then_updates_witness:
  "router_patch_handle example_env
     (logged_in\<lparr>handle := ''acme'', body := Object [(''handle'', String ''other'')]\<rparr>) example_world =
     (Inl (BadRequestError (Messages [''instance is not allowed to have the additional property handle''])),
      \<lparr>db = [(''acme'', acme)],
        trace = [Validate (Object [(''handle'', String ''other'')]) companyUpdateSchema_spec]\<rparr>)
   \<and> router_patch_handle example_env (logged_in\<lparr>handle := ''acme'', body := slogan\<rparr>) example_world =
     (Inr \<lparr>status = 200,
           json = Object [(''company'', Object [(''handle'', String ''acme''),
             (''name'', String ''Acme''), (''description'', String ''Anvils and more''),
             (''numEmployees'', Number (Finite 12))])]\<rparr>,
      \<lparr>db = [(''acme'', Object [(''handle'', String ''acme''),
             (''name'', String ''Acme''), (''description'', String ''Anvils and more''),
             (''numEmployees'', Number (Finite 12))])],
        trace = [Validate slogan companyUpdateSchema_spec, Company_update ''acme'' slogan]\<rparr>)"
proof -
  let ?is_url = "\<lambda>s. take 4 s = ''http''"
  let ?bad = "logged_in\<lparr>handle := ''acme'', body := Object [(''handle'', String ''other'')]\<rparr>"
  let ?good = "logged_in\<lparr>handle := ''acme'', body := slogan\<rparr>"
  have auth: "ensureLoggedIn example_env ?bad = None" "ensureLoggedIn example_env ?good = None"
    by (simp_all add: example_defs)
  have v: "validate example_env = validate_spec ?is_url"
    and s: "companyUpdateSchema example_env = companyUpdateSchema_spec"
    by (simp_all add: example_env_def env_spec_def)
  have bad: "body ?bad = Object [(''handle'', String ''other'')]
      \<and> (''handle'', String ''other'') \<in> set [(''handle'', String ''other'')]"
    by (simp add: logged_in_def)
  have good: "UpdatePatch ?is_url (body ?good)"
    by (simp add: logged_in_def slogan_def UpdatePatch_def)
  from patch_validates_then_updates [OF auth(1) v s, of example_world]
    patch_validates_then_updates [OF auth(2) v s, of example_world] bad good
  have "router_patch_handle example_env ?bad example_world =
      (Inl (BadRequestError (Messages
         (map stack (errors (validate_spec ?is_url (body ?bad) companyUpdateSchema_spec))))),
       \<lparr>db = db example_world,
         trace = trace example_world @ [Validate (body ?bad) companyUpdateSchema_spec]\<rparr>)"
    and "router_patch_handle example_env ?good example_world =
      (case update (Company example_env) (handle ?good) (body ?good) (db example_world) of
         (Inl e, d) \<Rightarrow>
           (Inl e, \<lparr>db = d, trace = trace example_world @ [Validate (body ?good) companyUpdateSchema_spec,
                                                Company_update (handle ?good) (body ?good)]\<rparr>)
       | (Inr company, d) \<Rightarrow>
           (Inr \<lparr>status = 200, json = Object [(''company'', company)]\<rparr>,
            \<lparr>db = d, trace = trace example_world @ [Validate (body ?good) companyUpdateSchema_spec,
                                         Company_update (handle ?good) (body ?good)]\<rparr>))"
    by blast+
  then show ?thesis
    by (simp add: example_defs validate_defs slogan_def store_update_def set_prop_def Let_def)
qed

section \<open>Listing companies: the coercion of the bounds\<close>




section \<open>Listing companies: the order of the bounds\<close>

lemma parseInt_integer:
  assumes "parseInt nts v = Finite r"
  shows "of_int \<lfloor>r\<rfloor> = r"
proof -
  from assms obtain i where "Number_of_int i = Finite r"
    by (auto simp: parseInt_def parseInt_string_def Let_def split: if_splits)
  then have "r \<in> \<int>"
    by (auto simp: Number_of_int_def split: option.splits if_splits)
  then show ?thesis
    by (auto elim: Ints_cases)
qed

lemma search_filters_valid:
  assumes d: "distinct (map fst q)"
    and shape: "list_all query_field q"
    and min: "truthy (get_prop q ''minEmployees'')" "parseInt nts (get_prop q ''minEmployees'') = Finite a"
    and max: "truthy (get_prop q ''maxEmployees'')" "parseInt nts (get_prop q ''maxEmployees'') = Finite b"
    and nonneg: "0 \<le> a" "0 \<le> b"
  shows "valid (validate_spec is_url (Object (normalized_query nts q)) companySearchFiltersSchema_spec)"
proof -
  have "property_errors is_url companySearchFiltersSchema_spec
      (if is_bound (fst kv) \<and> truthy (snd kv) then (fst kv, Number (parseInt nts (snd kv))) else kv) = []"
    if kv: "kv \<in> set q" for kv
  proof -
    obtain k v where [simp]: "kv = (k, v)" by (cases kv)
    from kv d have v: "get_prop q k = v"
      by (simp add: get_prop_distinct)
    from kv shape have f: "query_field (k, v)"
      by (auto simp: list_all_iff)
    show ?thesis
    proof (cases "is_bound k")
      case True
      then consider "k = ''minEmployees''" | "k = ''maxEmployees''"
        by (auto simp: is_bound_def)
      then show ?thesis
      proof cases
        case 1
        with v min nonneg parseInt_integer [OF min(2)] True show ?thesis
          by (simp add: property_errors_def companySearchFiltersSchema_spec_def)
      next
        case 2
        with v max nonneg parseInt_integer [OF max(2)] True show ?thesis
          by (simp add: property_errors_def companySearchFiltersSchema_spec_def)
      qed
    next
      case False
      with f show ?thesis
        by (cases v) (auto simp: is_bound_def property_errors_def companySearchFiltersSchema_spec_def)
    qed
  qed
  then have "concat (map (property_errors is_url companySearchFiltersSchema_spec)
      (normalized_query nts q)) = []"
    by (simp add: normalized_query_def)
  moreover have "required companySearchFiltersSchema_spec = []"
    by (simp add: companySearchFiltersSchema_spec_def)
  ultimately show ?thesis
    by (simp add: validate_spec_def)
qed

text \<open>
  Claim C4, as amended. When both bounds are present and parse to finite numbers with
  \<^verbatim>\<open>minEmployees\<close> greater than \<^verbatim>\<open>maxEmployees\<close>, the handler never compares them. After
  the two independent numeric checks it runs the schema validation on the coerced query:
  when the validator does not accept, the route ends with the validator's BadRequest and
  \<^verbatim>\<open>Company.findAll\<close> is not called; when it accepts, the handler passes the coerced
  query, both bounds as they were parsed, to \<^verbatim>\<open>Company.findAll\<close> and answers with what the
  model returns. With the validator and the search-filter schema of the specification the
  validator accepts whenever the query has only the keys \<^verbatim>\<open>nameLike\<close> (a string),
  \<^verbatim>\<open>minEmployees\<close> and \<^verbatim>\<open>maxEmployees\<close> and the bounds are not negative, whatever their
  order: such a request is not rejected.
\<close>

theorem list_ignores_bound_order:
  assumes "truthy (get_prop (query req) ''minEmployees'')"
    and "parseInt (Number_toString E) (get_prop (query req) ''minEmployees'') = Finite a"
    and "truthy (get_prop (query req) ''maxEmployees'')"
    and "parseInt (Number_toString E) (get_prop (query req) ''maxEmployees'') = Finite b"
    and "b < a"
    and "q' = set_prop (set_prop (query req) ''minEmployees'' (Number (Finite a)))
                ''maxEmployees'' (Number (Finite b))"
  shows "router_get_root E req w =
     (let validator = validate E (Object q') (companySearchFiltersSchema E);
          validated = trace w @
            [Console_log ''company route minEmployees: '' (Number (Finite a)),
             Validate (Object q') (companySearchFiltersSchema E)]
      in if \<not> valid validator
         then (Inl (BadRequestError (Messages (map stack (errors validator)))),
               \<lparr>db = db w, trace = validated\<rparr>)
         else
           (case findAll (Company E) (Object q') (db w) of
              (Inl e, d) \<Rightarrow> (Inl e, \<lparr>db = d, trace = validated @ [Company_findAll (Object q')]\<rparr>)
            | (Inr companies, d) \<Rightarrow>
                (Inr \<lparr>status = 200, json = Object [(''companies'', companies)]\<rparr>,
                 \<lparr>db = d, trace = validated @ [Company_findAll (Object q')]\<rparr>)))
   \<and> (validate E = validate_spec is_url \<and>
      companySearchFiltersSchema E = companySearchFiltersSchema_spec \<and>
      distinct (map fst (query req)) \<and> list_all query_field (query req) \<and> 0 \<le> b \<longrightarrow>
        router_get_root E req w =
          (case findAll (Company E) (Object q') (db w) of
             (Inl e, d) \<Rightarrow>
               (Inl e,
                \<lparr>db = d, trace = trace w @
                   [Console_log ''company route minEmployees: '' (Number (Finite a)),
                    Validate (Object q') companySearchFiltersSchema_spec,
                    Company_findAll (Object q')]\<rparr>)
           | (Inr companies, d) \<Rightarrow>
               (Inr \<lparr>status = 200, json = Object [(''companies'', companies)]\<rparr>,
                \<lparr>db = d, trace = trace w @
                   [Console_log ''company route minEmployees: '' (Number (Finite a)),
                    Validate (Object q') companySearchFiltersSchema_spec,
                    Company_findAll (Object q')]\<rparr>)))"
proof -
  have c: "coerced_query (Number_toString E) (query req) = q'"
    using assms(1-4,6) by (simp add: coerced_query_def get_prop_set_prop)
  have m: "get_prop q' ''minEmployees'' = Number (Finite a)"
    using assms(6) by (simp add: get_prop_set_prop)
  have run: "router_get_root E req w = after_coercion E q' w"
    using assms(1-4) c by (simp add: router_get_root_result)
  have generic: "router_get_root E req w =
     (let validator = validate E (Object q') (companySearchFiltersSchema E);
          validated = trace w @
            [Console_log ''company route minEmployees: '' (Number (Finite a)),
             Validate (Object q') (companySearchFiltersSchema E)]
      in if \<not> valid validator
         then (Inl (BadRequestError (Messages (map stack (errors validator)))),
               \<lparr>db = db w, trace = validated\<rparr>)
         else
           (case findAll (Company E) (Object q') (db w) of
              (Inl e, d) \<Rightarrow> (Inl e, \<lparr>db = d, trace = validated @ [Company_findAll (Object q')]\<rparr>)
            | (Inr companies, d) \<Rightarrow>
                (Inr \<lparr>status = 200, json = Object [(''companies'', companies)]\<rparr>,
                 \<lparr>db = d, trace = validated @ [Company_findAll (Object q')]\<rparr>)))"
    unfolding run after_coercion_result m ..
  have accepted: "valid (validate E (Object q') (companySearchFiltersSchema E))"
    if "validate E = validate_spec is_url"
      "companySearchFiltersSchema E = companySearchFiltersSchema_spec"
      "distinct (map fst (query req))" "list_all query_field (query req)" "0 \<le> b"
  proof -
    from that(5) assms(5) have "0 \<le> a" by simp
    from search_filters_valid [OF that(3,4) assms(1,2,3,4) this that(5), of is_url]
    show ?thesis
      using that(1,2) c coerced_query_normalized [OF that(3), of "Number_toString E"] by simp
  qed
  show ?thesis
  proof (intro conjI impI)
    show "router_get_root E req w =
     (let validator = validate E (Object q') (companySearchFiltersSchema E);
          validated = trace w @
            [Console_log ''company route minEmployees: '' (Number (Finite a)),
             Validate (Object q') (companySearchFiltersSchema E)]
      in if \<not> valid validator
         then (Inl (BadRequestError (Messages (map stack (errors validator)))),
               \<lparr>db = db w, trace = validated\<rparr>)
         else
           (case findAll (Company E) (Object q') (db w) of
              (Inl e, d) \<Rightarrow> (Inl e, \<lparr>db = d, trace = validated @ [Company_findAll (Object q')]\<rparr>)
            | (Inr companies, d) \<Rightarrow>
                (Inr \<lparr>status = 200, json = Object [(''companies'', companies)]\<rparr>,
                 \<lparr>db = d, trace = validated @ [Company_findAll (Object q')]\<rparr>)))"
      by (rule generic)
  next
    assume h: "validate E = validate_spec is_url \<and>
      companySearchFiltersSchema E = companySearchFiltersSchema_spec \<and>
      distinct (map fst (query req)) \<and> list_all query_field (query req) \<and> 0 \<le> b"
    then have "valid (validate E (Object q') (companySearchFiltersSchema E))"
      using accepted by blast
    with h show "router_get_root E req w =
          (case findAll (Company E) (Object q') (db w) of
             (Inl e, d) \<Rightarrow>
               (Inl e,
                \<lparr>db = d, trace = trace w @
                   [Console_log ''company route minEmployees: '' (Number (Finite a)),
                    Validate (Object q') companySearchFiltersSchema_spec,
                    Company_findAll (Object q')]\<rparr>)
           | (Inr companies, d) \<Rightarrow>
               (Inr \<lparr>status = 200, json = Object [(''companies'', companies)]\<rparr>,
                \<lparr>db = d, trace = trace w @
                   [Console_log ''company route minEmployees: '' (Number (Finite a)),
                    Validate (Object q') companySearchFiltersSchema_spec,
                    Company_findAll (Object q')]\<rparr>))"
      unfolding generic by (simp add: Let_def split: prod.splits sum.splits)
  qed
qed

text \<open>
  At least ten and at most five employees: the validator of the specification accepts the
  query, the model is called with both bounds, and no company passes.
\<close>

theorem list_ignores_bound_order_witness:
  "router_get_root example_env
     (anonymous\<lparr>query := [(''minEmployees'', String ''10''), (''maxEmployees'', String ''5'')]\<rparr>)
     example_world =
     (Inr \<lparr>status = 200, json = Object [(''companies'', Array [])]\<rparr>,
      \<lparr>db = [(''acme'', acme)],
        trace =
          [Console_log ''company route minEmployees: '' (Number (Finite 10)),
           Validate (Object [(''minEmployees'', Number (Finite 10)), (''maxEmployees'', Number (Finite 5))])
             companySearchFiltersSchema_spec,
           Company_findAll
             (Object [(''minEmployees'', Number (Finite 10)), (''maxEmployees'', Number (Finite 5))])]\<rparr>)"
proof -
  let ?req = "anonymous\<lparr>query := [(''minEmployees'', String ''10''), (''maxEmployees'', String ''5'')]\<rparr>"
  let ?q' = "[(''minEmployees'', Number (Finite 10)), (''maxEmployees'', Number (Finite 5))]"
  have t: "truthy (get_prop (query ?req) ''minEmployees'')" "truthy (get_prop (query ?req) ''maxEmployees'')"
    by (simp_all add: anonymous_def get_prop_def)
  have p: "parseInt (Number_toString example_env) (get_prop (query ?req) ''minEmployees'') = Finite 10"
    "parseInt (Number_toString example_env) (get_prop (query ?req) ''maxEmployees'') = Finite 5"
    by (simp_all add: anonymous_def get_prop_def parseInt_defs)
  have lt: "(5::rat) < 10" by simp
  have q': "?q' = set_prop (set_prop (query ?req) ''minEmployees'' (Number (Finite 10)))
      ''maxEmployees'' (Number (Finite 5))"
    by (simp add: anonymous_def set_prop_def)
  have shape: "validate example_env = validate_spec (\<lambda>s. take 4 s = ''http'') \<and>
      companySearchFiltersSchema example_env = companySearchFiltersSchema_spec \<and>
      distinct (map fst (query ?req)) \<and> list_all query_field (query ?req) \<and> (0::rat) \<le> 5"
    by (simp add: example_env_def env_spec_def anonymous_def)
  from list_ignores_bound_order [OF t(1) p(1) t(2) p(2) lt q', of example_world] shape
  have "router_get_root example_env ?req example_world =
          (case findAll (Company example_env) (Object ?q') (db example_world) of
             (Inl e, d) \<Rightarrow>
               (Inl e,
                \<lparr>db = d, trace = trace example_world @
                   [Console_log ''company route minEmployees: '' (Number (Finite 10)),
                    Validate (Object ?q') companySearchFiltersSchema_spec,
                    Company_findAll (Object ?q')]\<rparr>)
           | (Inr companies, d) \<Rightarrow>
               (Inr \<lparr>status = 200, json = Object [(''companies'', companies)]\<rparr>,
                \<lparr>db = d, trace = trace example_world @
                   [Console_log ''company route minEmployees: '' (Number (Finite 10)),
                    Validate (Object ?q') companySearchFiltersSchema_spec,
                    Company_findAll (Object ?q')]\<rparr>))"
    by blast
  then show ?thesis
    by (simp add: example_defs store_findAll_def passes_def get_prop_def)
qed

text \<open>
  The claim as stated fails on two requests with numeric bounds in the wrong order: the
  handler does more than the two numeric checks, and its schema validation rejects them.
  With an unknown key beside the bounds, and with negative bounds, the route ends with
  the validator's BadRequest and \<^verbatim>\<open>Company.findAll\<close> is not called.
\<close>

theorem list_bound_order_counterexample:
  "router_get_root example_env
     (anonymous\<lparr>query := [(''minEmployees'', String ''10''), (''maxEmployees'', String ''5''),
        (''location'', String ''x'')]\<rparr>)
     example_world =
     (Inl (BadRequestError (Messages
        [''instance is not allowed to have the additional property location''])),
      \<lparr>db = [(''acme'', acme)],
        trace =
          [Console_log ''company route minEmployees: '' (Number (Finite 10)),
           Validate (Object [(''minEmployees'', Number (Finite 10)), (''maxEmployees'', Number (Finite 5)),
              (''location'', String ''x'')])
             companySearchFiltersSchema_spec]\<rparr>)
   \<and> router_get_root example_env
     (anonymous\<lparr>query := [(''minEmployees'', String ''-1''), (''maxEmployees'', String ''-5'')]\<rparr>)
     example_world =
     (Inl (BadRequestError (Messages
        [''instance.minEmployees is not of type non-negative integer'',
         ''instance.maxEmployees is not of type non-negative integer''])),
      \<lparr>db = [(''acme'', acme)],
        trace =
          [Console_log ''company route minEmployees: '' (Number (Finite (- 1))),
           Validate (Object [(''minEmployees'', Number (Finite (- 1))), (''maxEmployees'', Number (Finite (- 5)))])
             companySearchFiltersSchema_spec]\<rparr>)"
  unfolding router_get_root_result after_coercion_result
  by (simp add: example_defs validate_defs get_prop_def set_prop_def parseInt_defs coerced_query_def)

section \<open>Listing companies: what the model receives\<close>



section \<open>Listing companies: a number followed by other characters\<close>




section \<open>Failures\<close>













end
